theory Spec2Isabelle
  imports Complex_Main "HOL-Library.Sublist" "HOL-Library.Multiset"
begin

section \<open>Data model\<close>

text \<open>
  The backend API (NestJS, TypeScript) of the hospital prediction system. Identifiers are
  UUID strings. In a clinical record, JavaScript numbers are modelled as \<open>int\<close> for the
  integer columns and as \<open>real\<close> for the decimal columns. What the ML service answers is
  not typed at run time: it is a JavaScript value (\<open>jsv\<close> below), and the table of
  predictions holds what the database makes of it.
\<close>

type_synonym uuid = string

text \<open>
  A property of an entity whose column is nullable holds a value, \<open>null\<close>, or is
  \<open>undefined\<close>; a field of type \<open>number | null\<close> of the request sent to the ML service
  holds a value or \<open>null\<close>.
\<close>

datatype 'a column = Undefined | Null | Val 'a

datatype 'a or_null = IsNull | NotNull 'a

text \<open>A measurement is absent when its property is \<open>null\<close> or \<open>undefined\<close>.\<close>

fun is_absent :: "'a column \<Rightarrow> bool" where
  "is_absent Undefined = True"
| "is_absent Null = True"
| "is_absent (Val v) = False"

text \<open>The operator \<open>x ?? null\<close> of \<open>prepareFeatures\<close>.\<close>

fun nullish_or_null :: "'a column \<Rightarrow> 'a or_null" where
  "nullish_or_null Undefined = IsNull"
| "nullish_or_null Null = IsNull"
| "nullish_or_null (Val v) = NotNull v"

subsection \<open>Enumerations (string enums: each member's run-time value is its name)\<close>

datatype SmokingStatus = NEVER | FORMER | CURRENT

fun SmokingStatus_value :: "SmokingStatus \<Rightarrow> string" where
  "SmokingStatus_value NEVER = ''NEVER''"
| "SmokingStatus_value FORMER = ''FORMER''"
| "SmokingStatus_value CURRENT = ''CURRENT''"

datatype PredictionType = READMISSION_RISK | DIABETES_RISK

fun PredictionType_value :: "PredictionType \<Rightarrow> string" where
  "PredictionType_value READMISSION_RISK = ''READMISSION_RISK''"
| "PredictionType_value DIABETES_RISK = ''DIABETES_RISK''"

datatype RiskLevel = LOW | MEDIUM | HIGH

fun RiskLevel_value :: "RiskLevel \<Rightarrow> string" where
  "RiskLevel_value LOW = ''LOW''"
| "RiskLevel_value MEDIUM = ''MEDIUM''"
| "RiskLevel_value HIGH = ''HIGH''"

subsection \<open>Entities\<close>

text \<open>
  \<open>Patient\<close>: of the entity's columns the prediction module reads only the identifier
  (\<open>PatientsService.findById\<close> looks a patient up by \<open>id\<close>); the names are kept for
  readability of examples.
\<close>

record Patient =
  patient_id :: uuid
  firstName :: string
  lastName :: string

text \<open>\<open>ClinicalRecord\<close> (clinical-record.entity.ts); dates and timestamps are numbers.\<close>

record ClinicalRecord =
  record_id :: uuid
  record_patientId :: uuid
  recordDate :: nat
  age :: int
  bmi :: "real column"
  bloodPressureSystolic :: "int column"
  bloodPressureDiastolic :: "int column"
  glucoseLevel :: "real column"
  cholesterol :: "real column"
  hba1c :: "real column"
  previousAdmissions :: int
  lastStayDuration :: "int column"
  hasDiabetes :: bool
  hasHypertension :: bool
  hasHeartDisease :: bool
  smokingStatus :: SmokingStatus
  record_createdById :: uuid
  record_createdAt :: nat
  record_notes :: "string column"

text \<open>\<open>MLPredictionInput\<close> (ml-service.client.ts): the feature vector sent to the ML service.\<close>

record MLPredictionInput =
  f_age :: int
  f_bmi :: "real or_null"
  blood_pressure_systolic :: "int or_null"
  blood_pressure_diastolic :: "int or_null"
  glucose_level :: "real or_null"
  f_cholesterol :: "real or_null"
  f_hba1c :: "real or_null"
  previous_admissions :: int
  last_stay_duration :: "int or_null"
  has_diabetes :: bool
  has_hypertension :: bool
  has_heart_disease :: bool
  smoking_status :: string

subsection \<open>JavaScript values\<close>

text \<open>
  The values a JSON body can hold, and \<open>undefined\<close>. Numbers are the reals they denote.
  An object is its list of properties in the order of the text; when a name occurs twice
  the later one counts.
\<close>

datatype jsv =
    JUndefined
  | JNull
  | JBool bool
  | JNumber real
  | JString string
  | JArray "jsv list"
  | JObject "(string \<times> jsv) list"

fun nullish :: "jsv \<Rightarrow> bool" where
  "nullish JUndefined = True"
| "nullish JNull = True"
| "nullish v = False"

text \<open>
  \<open>v.name\<close> for a value that is neither \<open>null\<close> nor \<open>undefined\<close> (on those the
  read throws, which the callers below check first). A string, a number, a boolean or an
  array has none of the properties the backend reads.
\<close>

fun get_prop :: "string \<Rightarrow> jsv \<Rightarrow> jsv" where
  "get_prop name (JObject members) =
     (case map_of (rev members) name of None \<Rightarrow> JUndefined | Some v \<Rightarrow> v)"
| "get_prop name v = JUndefined"

text \<open>The values that \<open>v || x\<close> replaces by \<open>x\<close>.\<close>

fun falsy :: "jsv \<Rightarrow> bool" where
  "falsy JUndefined = True"
| "falsy JNull = True"
| "falsy (JBool b) = (\<not> b)"
| "falsy (JNumber x) = (x = 0)"
| "falsy (JString s) = (s = [])"
| "falsy v = False"

fun join_comma :: "string list \<Rightarrow> string" where
  "join_comma [] = []"
| "join_comma [s] = s"
| "join_comma (s # t # rest) = s @ '','' @ join_comma (t # rest)"

text \<open>
  The string a template literal makes of a value. How a number is printed is the
  runtime's (\<open>Number.prototype.toString\<close>), a parameter here.
\<close>

fun ToString :: "(real \<Rightarrow> string) \<Rightarrow> jsv \<Rightarrow> string" where
  "ToString num JUndefined = ''undefined''"
| "ToString num JNull = ''null''"
| "ToString num (JBool b) = (if b then ''true'' else ''false'')"
| "ToString num (JNumber x) = num x"
| "ToString num (JString s) = s"
| "ToString num (JArray vs) =
     join_comma (map (\<lambda>v. if nullish v then [] else ToString num v) vs)"
| "ToString num (JObject members) = ''[object Object]''"

text \<open>
  \<open>Prediction\<close> (prediction.entity.ts), the object in memory. The six properties that
  \<open>requestPrediction\<close> copies from the answer of the ML service hold whatever the answer
  held: the declared types (\<open>number\<close>, \<open>RiskLevel\<close>, \<open>string\<close>) are not checked at
  run time (\<open>mlResponse.risk_level as RiskLevel\<close> is a cast). \<open>id\<close> and \<open>createdAt\<close>
  are generated when the entity is saved.
\<close>

record Prediction =
  prediction_id :: uuid
  patientId :: uuid
  clinicalRecordId :: uuid
  predictionType :: PredictionType
  riskScore :: jsv
  riskLevel :: jsv
  modelVersion :: jsv
  modelAlgorithm :: jsv
  featuresUsed :: MLPredictionInput
  featureImportance :: jsv
  processingTimeMs :: jsv
  requestedById :: uuid
  createdAt :: nat

text \<open>
  A row of the table \<open>predictions\<close> (init-db.sql and the column decorators of the
  entity): \<open>risk_score DECIMAL(5,4) NOT NULL\<close>, \<open>risk_level\<close> of the enumerated type,
  \<open>model_version\<close> and \<open>model_algorithm VARCHAR(50) NOT NULL\<close>, \<open>features_used JSONB\<close>,
  \<open>feature_importance JSONB\<close> and \<open>processing_time_ms INTEGER\<close>, both nullable. A
  \<open>numeric\<close> value is a number or the special value NaN.
\<close>

datatype pg_numeric = Numeric real | NumericNaN

record PredictionRow =
  row_id :: uuid
  row_patientId :: uuid
  row_clinicalRecordId :: uuid
  row_predictionType :: PredictionType
  row_riskScore :: pg_numeric
  row_riskLevel :: RiskLevel
  row_modelVersion :: string
  row_modelAlgorithm :: string
  row_featuresUsed :: MLPredictionInput
  row_featureImportance :: jsv
  row_processingTimeMs :: "int option"
  row_requestedById :: uuid
  row_createdAt :: nat

text \<open>\<open>RequestPredictionDto\<close> (request-prediction.dto.ts), after validation.\<close>

record RequestPredictionDto =
  dto_patientId :: uuid
  dto_clinicalRecordId :: uuid
  dto_predictionType :: PredictionType

section \<open>Feature mapping\<close>

text \<open>\<open>PredictionsService.prepareFeatures\<close>.\<close>

definition prepareFeatures :: "ClinicalRecord \<Rightarrow> MLPredictionInput" where
  "prepareFeatures record =
     \<lparr> f_age = age record,
       f_bmi = nullish_or_null (bmi record),
       blood_pressure_systolic = nullish_or_null (bloodPressureSystolic record),
       blood_pressure_diastolic = nullish_or_null (bloodPressureDiastolic record),
       glucose_level = nullish_or_null (glucoseLevel record),
       f_cholesterol = nullish_or_null (cholesterol record),
       f_hba1c = nullish_or_null (hba1c record),
       previous_admissions = previousAdmissions record,
       last_stay_duration = nullish_or_null (lastStayDuration record),
       has_diabetes = hasDiabetes record,
       has_hypertension = hasHypertension record,
       has_heart_disease = hasHeartDisease record,
       smoking_status = SmokingStatus_value (smokingStatus record) \<rparr>"

section \<open>Errors and the world outside the backend\<close>

text \<open>
  Why the database refuses a statement: a \<open>NOT NULL\<close> column without a value, a value
  the type of the column does not accept (a text that is no number or no label of the
  enumerated type, a number too large for the column, a text too long), a negative
  \<open>LIMIT\<close> or \<open>OFFSET\<close> or one beyond \<open>bigint\<close>.
\<close>

datatype db_error =
    NotNullViolation string
  | InvalidValue string
  | InvalidLimitOrOffset

text \<open>
  What a request to the backend can end in: the two NestJS exceptions the prediction
  module throws, and the errors it does not catch (a \<open>QueryFailedError\<close> of TypeORM, a
  \<open>TypeError\<close>), which NestJS answers with status 500.
\<close>

datatype http_exception =
    NotFoundException string
  | ServiceUnavailableException string
  | QueryFailedError db_error
  | TypeError

text \<open>
  What the HTTP client (axios) can throw: an \<open>AxiosError\<close> with an optional \<open>code\<close>
  and an optional \<open>response\<close> (status and body), or any other error. A call of the client
  resolves with \<open>response.data\<close> or is rejected. For an answer with a success status,
  \<open>response.data\<close> is the parsed body when the body is JSON, and the text of the body,
  as a string, when it cannot be parsed.
\<close>

record error_response =
  response_status :: int
  response_data :: jsv

datatype thrown = AxiosError "string option" "error_response option" | OtherError

datatype http_result = Resolved jsv | Rejected thrown

datatype http_request = PostPredict string MLPredictionInput | GetHealth | GetModelInfo

text \<open>
  The environment of the backend: how the ML service answers each request; the identifier
  generator of the database (\<open>uuid_generate_v4\<close>), a function of the number of rows saved
  so far; and five functions of the runtime and the database that are not code of the
  repository: how JavaScript prints a number, which texts PostgreSQL reads as a
  \<open>numeric\<close> and as an \<open>integer\<close> (\<open>None\<close> when it refuses the text), the text
  the database driver sends for an array or an object, and PostgreSQL's \<open>AVG\<close>.
\<close>

record env =
  post_predict :: "string \<Rightarrow> MLPredictionInput \<Rightarrow> http_result"
  get_health :: http_result
  get_model_info :: http_result
  uuid_generate_v4 :: "nat \<Rightarrow> uuid"
  Number_toString :: "real \<Rightarrow> string"
  numeric_in :: "string \<Rightarrow> pg_numeric option"
  int4_in :: "string \<Rightarrow> int option"
  compound_text :: "jsv \<Rightarrow> string"
  numeric_avg :: "pg_numeric list \<Rightarrow> pg_numeric"

text \<open>
  The state: the three tables the prediction module touches, the requests the HTTP client
  has sent so far (oldest first), and the clock of the database. Log lines are not modelled.
\<close>

record world =
  patients :: "Patient list"
  clinicalRecords :: "ClinicalRecord list"
  predictions :: "PredictionRow list"
  outbound :: "http_request list"
  clock :: nat

section \<open>MLServiceClient\<close>

text \<open>
  \<open>handleMLServiceError\<close> always throws; the model returns the exception thrown. The
  message of a rejection is built from \<open>response.data?.detail || 'Unknown error'\<close>.
\<close>

definition response_detail :: "jsv \<Rightarrow> jsv" where
  "response_detail response_body =
     (if nullish response_body then JUndefined else get_prop ''detail'' response_body)"

fun handleMLServiceError :: "env \<Rightarrow> thrown \<Rightarrow> http_exception" where
  "handleMLServiceError e (AxiosError code response) =
     (if code = Some ''ECONNREFUSED'' then
        ServiceUnavailableException
          ''ML Service is not available. The prediction service may be starting up or offline.''
      else if code = Some ''ETIMEDOUT'' then
        ServiceUnavailableException
          ''ML Service request timed out. The prediction is taking too long.''
      else (case response of
          Some r \<Rightarrow>
            ServiceUnavailableException
              (''ML Service error: '' @
                 (let detail = response_detail (response_data r) in
                  if falsy detail then ''Unknown error''
                  else ToString (Number_toString e) detail))
        | None \<Rightarrow>
            ServiceUnavailableException ''An unexpected error occurred with the ML Service''))"
| "handleMLServiceError e OtherError =
     ServiceUnavailableException ''An unexpected error occurred with the ML Service''"

text \<open>
  \<open>MLServiceClient.predict\<close>: one POST to \<open>/predict\<close>. The body of a success answer is
  returned as it is, unchecked; only reading \<open>response.data.risk_level\<close> for the log line
  throws, inside the \<open>try\<close>, when the body is \<open>null\<close>.
\<close>

definition predict ::
  "env \<Rightarrow> string \<Rightarrow> MLPredictionInput \<Rightarrow> world \<Rightarrow> (http_exception + jsv) \<times> world"
where
  "predict e predictionType_str features w =
     (let w' = w\<lparr>outbound := outbound w @ [PostPredict predictionType_str features]\<rparr> in
      case post_predict e predictionType_str features of
        Resolved body \<Rightarrow>
          (if nullish body then (Inl (handleMLServiceError e OtherError), w')
           else (Inr body, w'))
      | Rejected error \<Rightarrow> (Inl (handleMLServiceError e error), w'))"

text \<open>\<open>MLServiceClient.healthCheck\<close> and \<open>MLServiceClient.getModelInfo\<close>.\<close>

definition healthCheck :: "env \<Rightarrow> world \<Rightarrow> (http_exception + jsv) \<times> world" where
  "healthCheck e w =
     (let w' = w\<lparr>outbound := outbound w @ [GetHealth]\<rparr> in
      case get_health e of
        Resolved body \<Rightarrow> (Inr body, w')
      | Rejected error \<Rightarrow>
          (Inl (ServiceUnavailableException
                  ''ML Service is not available. Please try again later.''), w'))"

definition getModelInfo :: "env \<Rightarrow> world \<Rightarrow> (http_exception + jsv) \<times> world" where
  "getModelInfo e w =
     (let w' = w\<lparr>outbound := outbound w @ [GetModelInfo]\<rparr> in
      case get_model_info e of
        Resolved body \<Rightarrow> (Inr body, w')
      | Rejected error \<Rightarrow> (Inl (handleMLServiceError e error), w'))"

section \<open>Repositories\<close>

text \<open>
  The TypeORM repositories, as the services use them, on the tables of init-db.sql.
  \<open>findOne\<close> with a \<open>where\<close> clause is the first row that satisfies it. Relations are
  not loaded in the model.
\<close>

definition patientRepository_findOne :: "uuid \<Rightarrow> world \<Rightarrow> Patient option" where
  "patientRepository_findOne ident w = find (\<lambda>p. patient_id p = ident) (patients w)"

definition clinicalRecordRepository_findOne :: "uuid \<Rightarrow> uuid \<Rightarrow> world \<Rightarrow> ClinicalRecord option" where
  "clinicalRecordRepository_findOne ident pid w =
     find (\<lambda>r. record_id r = ident \<and> record_patientId r = pid) (clinicalRecords w)"

subsection \<open>What each column makes of a JavaScript value\<close>

text \<open>
  \<open>DECIMAL(5,4)\<close>: the value is rounded to four decimal places, ties away from zero,
  and refused when the result has more than one digit before the point.
\<close>

definition pg_round4 :: "real \<Rightarrow> real" where
  "pg_round4 x =
     (if 0 \<le> x then real_of_int \<lfloor>x * 10000 + 1 / 2\<rfloor> / 10000
      else - (real_of_int \<lfloor>- x * 10000 + 1 / 2\<rfloor> / 10000))"

fun numeric_5_4 :: "string \<Rightarrow> pg_numeric \<Rightarrow> db_error + pg_numeric" where
  "numeric_5_4 column NumericNaN = Inr NumericNaN"
| "numeric_5_4 column (Numeric x) =
     (if \<bar>pg_round4 x\<bar> < 10 then Inr (Numeric (pg_round4 x)) else Inl (InvalidValue column))"

text \<open>
  The driver sends a number as its decimal text, which the database reads back as the
  same number; a string is sent as it is and read by the database; a boolean is sent as
  \<open>true\<close> or \<open>false\<close>, an array or an object as a text that begins with a brace: none
  of these is a number or a label. \<open>undefined\<close> and \<open>null\<close> leave the column without a
  value.
\<close>

fun numeric_column :: "string \<Rightarrow> env \<Rightarrow> jsv \<Rightarrow> db_error + pg_numeric" where
  "numeric_column column e JUndefined = Inl (NotNullViolation column)"
| "numeric_column column e JNull = Inl (NotNullViolation column)"
| "numeric_column column e (JNumber x) = numeric_5_4 column (Numeric x)"
| "numeric_column column e (JString s) =
     (case numeric_in e s of
        None \<Rightarrow> Inl (InvalidValue column)
      | Some n \<Rightarrow> numeric_5_4 column n)"
| "numeric_column column e v = Inl (InvalidValue column)"

fun risk_level_column :: "string \<Rightarrow> jsv \<Rightarrow> db_error + RiskLevel" where
  "risk_level_column column JUndefined = Inl (NotNullViolation column)"
| "risk_level_column column JNull = Inl (NotNullViolation column)"
| "risk_level_column column (JString s) =
     (if s = ''LOW'' then Inr LOW
      else if s = ''MEDIUM'' then Inr MEDIUM
      else if s = ''HIGH'' then Inr HIGH
      else Inl (InvalidValue column))"
| "risk_level_column column v = Inl (InvalidValue column)"

text \<open>
  \<open>VARCHAR(50)\<close>: a text of more than 50 characters is refused, unless the characters
  beyond the fiftieth are all spaces, which are dropped.
\<close>

definition varchar_50 :: "string \<Rightarrow> string option" where
  "varchar_50 s =
     (if length s \<le> 50 then Some s
      else if list_all (\<lambda>c. c = CHR '' '') (drop 50 s) then Some (take 50 s)
      else None)"

fun driver_text :: "env \<Rightarrow> jsv \<Rightarrow> string" where
  "driver_text e (JString s) = s"
| "driver_text e (JBool b) = (if b then ''true'' else ''false'')"
| "driver_text e (JNumber x) = Number_toString e x"
| "driver_text e v = compound_text e v"

fun varchar_column :: "string \<Rightarrow> env \<Rightarrow> jsv \<Rightarrow> db_error + string" where
  "varchar_column column e JUndefined = Inl (NotNullViolation column)"
| "varchar_column column e JNull = Inl (NotNullViolation column)"
| "varchar_column column e v =
     (case varchar_50 (driver_text e v) of
        None \<Rightarrow> Inl (InvalidValue column)
      | Some s \<Rightarrow> Inr s)"

text \<open>\<open>INTEGER\<close>, nullable: a whole number from \<open>-2^31\<close> to \<open>2^31 - 1\<close>.\<close>

fun integer_column :: "string \<Rightarrow> env \<Rightarrow> jsv \<Rightarrow> db_error + int option" where
  "integer_column column e JUndefined = Inr None"
| "integer_column column e JNull = Inr None"
| "integer_column column e (JNumber x) =
     (if x = real_of_int \<lfloor>x\<rfloor> \<and> - 2147483648 \<le> \<lfloor>x\<rfloor> \<and> \<lfloor>x\<rfloor> \<le> 2147483647
      then Inr (Some \<lfloor>x\<rfloor>) else Inl (InvalidValue column))"
| "integer_column column e (JString s) =
     (case int4_in e s of
        None \<Rightarrow> Inl (InvalidValue column)
      | Some n \<Rightarrow> Inr (Some n))"
| "integer_column column e v = Inl (InvalidValue column)"

text \<open>\<open>JSONB\<close>, nullable: any JSON value; without a value the column is \<open>NULL\<close>.\<close>

fun jsonb_column :: "jsv \<Rightarrow> jsv" where
  "jsonb_column JUndefined = JNull"
| "jsonb_column v = v"

text \<open>
  The row that \<open>INSERT\<close> makes of a new entity, or why the database refuses it. The
  identifiers of the row come from the validated request and the authenticated user, and
  the rows they refer to exist; the feature vector is always an object.
\<close>

definition insert_row :: "env \<Rightarrow> Prediction \<Rightarrow> uuid \<Rightarrow> nat \<Rightarrow> db_error + PredictionRow" where
  "insert_row e prediction ident now =
     (case numeric_column ''risk_score'' e (riskScore prediction) of
        Inl err \<Rightarrow> Inl err
      | Inr score \<Rightarrow>
     (case risk_level_column ''risk_level'' (riskLevel prediction) of
        Inl err \<Rightarrow> Inl err
      | Inr level \<Rightarrow>
     (case varchar_column ''model_version'' e (modelVersion prediction) of
        Inl err \<Rightarrow> Inl err
      | Inr version \<Rightarrow>
     (case varchar_column ''model_algorithm'' e (modelAlgorithm prediction) of
        Inl err \<Rightarrow> Inl err
      | Inr algorithm \<Rightarrow>
     (case integer_column ''processing_time_ms'' e (processingTimeMs prediction) of
        Inl err \<Rightarrow> Inl err
      | Inr millis \<Rightarrow>
          Inr \<lparr> row_id = ident,
                row_patientId = patientId prediction,
                row_clinicalRecordId = clinicalRecordId prediction,
                row_predictionType = predictionType prediction,
                row_riskScore = score,
                row_riskLevel = level,
                row_modelVersion = version,
                row_modelAlgorithm = algorithm,
                row_featuresUsed = featuresUsed prediction,
                row_featureImportance = jsonb_column (featureImportance prediction),
                row_processingTimeMs = millis,
                row_requestedById = requestedById prediction,
                row_createdAt = now \<rparr>)))))"

text \<open>
  \<open>save\<close> of a new entity: the row is appended and the entity gets the generated
  \<open>id\<close> and \<open>createdAt\<close>, its other properties staying as they were; when the database
  refuses the row, \<open>save\<close> throws and nothing is stored.
\<close>

definition predictionRepository_save ::
  "env \<Rightarrow> Prediction \<Rightarrow> world \<Rightarrow> (http_exception + Prediction) \<times> world"
where
  "predictionRepository_save e prediction w =
     (case insert_row e prediction (uuid_generate_v4 e (clock w)) (clock w) of
        Inl err \<Rightarrow> (Inl (QueryFailedError err), w)
      | Inr row \<Rightarrow>
          (Inr (prediction\<lparr>prediction_id := row_id row, createdAt := row_createdAt row\<rparr>),
           w\<lparr>predictions := predictions w @ [row], clock := Suc (clock w)\<rparr>))"

definition order_createdAt_DESC :: "PredictionRow list \<Rightarrow> PredictionRow list" where
  "order_createdAt_DESC rows = rev (sort_key row_createdAt rows)"

text \<open>
  \<open>findAndCount\<close> with \<open>skip\<close> and \<open>take\<close>. TypeORM writes \<open>OFFSET\<close> and
  \<open>LIMIT\<close> into the query only for a value other than 0, so \<open>take: 0\<close> puts no limit
  on the rows; PostgreSQL refuses a negative \<open>LIMIT\<close> or \<open>OFFSET\<close> and one that does
  not fit \<open>bigint\<close>. The count is that of the whole table.
\<close>

definition predictionRepository_findAndCount ::
  "int \<Rightarrow> int \<Rightarrow> world \<Rightarrow> db_error + PredictionRow list \<times> int"
where
  "predictionRepository_findAndCount skip_rows take_rows w =
     (if skip_rows < 0 \<or> take_rows < 0 \<or> 2 ^ 63 \<le> skip_rows \<or> 2 ^ 63 \<le> take_rows
      then Inl InvalidLimitOrOffset
      else
        (let after = drop (nat skip_rows) (order_createdAt_DESC (predictions w)) in
         Inr (if take_rows = 0 then after else take (nat take_rows) after,
              int (length (predictions w)))))"

text \<open>
  \<open>SELECT key, COUNT(*) ... GROUP BY key\<close>: one row for each key that occurs, with the
  number of its rows.
\<close>

definition group_count :: "'k list \<Rightarrow> ('k \<times> nat) list" where
  "group_count keys = map (\<lambda>k. (k, count_list keys k)) (remdups keys)"

section \<open>PatientsService and PredictionsService\<close>

definition PatientsService_findById :: "uuid \<Rightarrow> world \<Rightarrow> http_exception + Patient" where
  "PatientsService_findById ident w =
     (case patientRepository_findOne ident w of
        None \<Rightarrow> Inl (NotFoundException (''Patient with ID '' @ ident @ '' not found''))
      | Some patient \<Rightarrow> Inr patient)"

text \<open>
  \<open>PredictionsService.requestPrediction\<close>, steps 1 to 4 in the order of the source.
  \<open>predictionRepository.create\<close> copies the properties it is given.
\<close>

definition create_prediction ::
  "RequestPredictionDto \<Rightarrow> uuid \<Rightarrow> MLPredictionInput \<Rightarrow> jsv \<Rightarrow> Prediction"
where
  "create_prediction dto userId features mlResponse =
     \<lparr> prediction_id = [],
       patientId = dto_patientId dto,
       clinicalRecordId = dto_clinicalRecordId dto,
       predictionType = dto_predictionType dto,
       riskScore = get_prop ''risk_score'' mlResponse,
       riskLevel = get_prop ''risk_level'' mlResponse,
       modelVersion = get_prop ''model_version'' mlResponse,
       modelAlgorithm = get_prop ''model_algorithm'' mlResponse,
       featuresUsed = features,
       featureImportance = get_prop ''feature_importance'' mlResponse,
       processingTimeMs = get_prop ''processing_time_ms'' mlResponse,
       requestedById = userId,
       createdAt = 0 \<rparr>"

definition requestPrediction ::
  "env \<Rightarrow> RequestPredictionDto \<Rightarrow> uuid \<Rightarrow> world \<Rightarrow> (http_exception + Prediction) \<times> world"
where
  "requestPrediction e dto userId w =
     (case PatientsService_findById (dto_patientId dto) w of
        Inl err \<Rightarrow> (Inl err, w)
      | Inr patient \<Rightarrow>
         (case clinicalRecordRepository_findOne (dto_clinicalRecordId dto) (dto_patientId dto) w of
            None \<Rightarrow>
              (Inl (NotFoundException
                      (''Clinical record '' @ dto_clinicalRecordId dto @
                       '' not found for patient '' @ dto_patientId dto)), w)
          | Some clinicalRecord \<Rightarrow>
             (let features = prepareFeatures clinicalRecord in
              case predict e (PredictionType_value (dto_predictionType dto)) features w of
                (Inl err, w1) \<Rightarrow> (Inl err, w1)
              | (Inr mlResponse, w1) \<Rightarrow>
                 (if nullish mlResponse then (Inl TypeError, w1)
                  else predictionRepository_save e
                         (create_prediction dto userId features mlResponse) w1))))"

text \<open>\<open>PredictionsService.findById\<close> and \<open>getPatientHistory\<close>.\<close>

definition findById :: "uuid \<Rightarrow> world \<Rightarrow> http_exception + PredictionRow" where
  "findById ident w =
     (case find (\<lambda>p. row_id p = ident) (predictions w) of
        None \<Rightarrow> Inl (NotFoundException (''Prediction with ID '' @ ident @ '' not found''))
      | Some prediction \<Rightarrow> Inr prediction)"

definition getPatientHistory :: "uuid \<Rightarrow> world \<Rightarrow> http_exception + PredictionRow list" where
  "getPatientHistory pid w =
     (case PatientsService_findById pid w of
        Inl err \<Rightarrow> Inl err
      | Inr patient \<Rightarrow>
          Inr (order_createdAt_DESC (filter (\<lambda>p. row_patientId p = pid) (predictions w))))"

text \<open>
  \<open>PredictionsService.findAll\<close>. \<open>Math.ceil(total / limit)\<close> is a JavaScript number:
  dividing by zero gives \<open>Infinity\<close>, or \<open>NaN\<close> when the count is zero too (the count
  is never negative).
\<close>

datatype js_number = Finite int | PositiveInfinity | NaN

definition Math_ceil_quotient :: "int \<Rightarrow> int \<Rightarrow> js_number" where
  "Math_ceil_quotient total_rows limit =
     (if limit = 0 then (if total_rows = 0 then NaN else PositiveInfinity)
      else Finite \<lceil>real_of_int total_rows / real_of_int limit\<rceil>)"

record PaginatedPredictions =
  data :: "PredictionRow list"
  meta_page :: int
  meta_limit :: int
  meta_total :: int
  meta_totalPages :: js_number

definition findAll ::
  "int option \<Rightarrow> int option \<Rightarrow> world \<Rightarrow> http_exception + PaginatedPredictions"
where
  "findAll page_arg limit_arg w =
     (let page = (case page_arg of None \<Rightarrow> 1 | Some n \<Rightarrow> n);
          limit = (case limit_arg of None \<Rightarrow> 20 | Some n \<Rightarrow> n)
      in case predictionRepository_findAndCount ((page - 1) * limit) limit w of
           Inl err \<Rightarrow> Inl (QueryFailedError err)
         | Inr (found, total_rows) \<Rightarrow>
             Inr \<lparr> data = found,
                   meta_page = page,
                   meta_limit = limit,
                   meta_total = total_rows,
                   meta_totalPages = Math_ceil_quotient total_rows limit \<rparr>)"

text \<open>
  \<open>PredictionsService.getStatistics\<close>: every figure is computed from the rows on read.
  The average of a group is PostgreSQL's \<open>AVG\<close>, which rounds the quotient as the
  database sees fit: a function of the environment.
\<close>

record TypeStatistics =
  stat_predictionType :: PredictionType
  stat_count :: nat
  avgRiskScore :: pg_numeric

record Statistics =
  total :: nat
  byRiskLevel :: "(RiskLevel \<times> nat) list"
  byType :: "TypeStatistics list"
  highRiskCount :: nat
  recentPredictions :: "PredictionRow list"

definition getStatistics :: "env \<Rightarrow> world \<Rightarrow> Statistics" where
  "getStatistics e w =
     (let rows = predictions w in
      \<lparr> total = length rows,
        byRiskLevel = group_count (map row_riskLevel rows),
        byType =
          map (\<lambda>t. let group = filter (\<lambda>p. row_predictionType p = t) rows in
                 \<lparr> stat_predictionType = t,
                   stat_count = length group,
                   avgRiskScore = numeric_avg e (map row_riskScore group) \<rparr>)
              (remdups (map row_predictionType rows)),
        highRiskCount = length (filter (\<lambda>p. row_riskLevel p = HIGH) rows),
        recentPredictions = take 10 (order_createdAt_DESC rows) \<rparr>)"

section \<open>PredictionsController\<close>

text \<open>
  The seven routes of the controller, with their parameters after the pipes
  (\<open>DefaultValuePipe\<close> supplies 1 and 20 for an absent \<open>page\<close> and \<open>limit\<close>,
  \<open>ParseIntPipe\<close> lets every whole number through), and what each returns.
\<close>

datatype request =
    POST_predictions RequestPredictionDto uuid
  | GET_predictions "int option" "int option"
  | GET_statistics
  | GET_ml_health
  | GET_model_info
  | GET_patient_history uuid
  | GET_prediction uuid

datatype response =
    PredictionBody Prediction
  | PageBody PaginatedPredictions
  | StatisticsBody Statistics
  | ServiceBody jsv
  | HistoryBody "PredictionRow list"
  | RowBody PredictionRow

definition controller_findAll ::
  "int option \<Rightarrow> int option \<Rightarrow> world \<Rightarrow> http_exception + PaginatedPredictions"
where
  "controller_findAll page_query limit_query w =
     (let page = (case page_query of None \<Rightarrow> 1 | Some n \<Rightarrow> n);
          limit = (case limit_query of None \<Rightarrow> 20 | Some n \<Rightarrow> n)
      in findAll (Some page) (Some (min limit 100)) w)"

fun PredictionsController ::
  "env \<Rightarrow> request \<Rightarrow> world \<Rightarrow> (http_exception + response) \<times> world"
where
  "PredictionsController e (POST_predictions dto userId) w =
     (case requestPrediction e dto userId w of (r, w') \<Rightarrow> (map_sum id PredictionBody r, w'))"
| "PredictionsController e (GET_predictions page_query limit_query) w =
     (map_sum id PageBody (controller_findAll page_query limit_query w), w)"
| "PredictionsController e GET_statistics w = (Inr (StatisticsBody (getStatistics e w)), w)"
| "PredictionsController e GET_ml_health w =
     (case healthCheck e w of (r, w') \<Rightarrow> (map_sum id ServiceBody r, w'))"
| "PredictionsController e GET_model_info w =
     (case getModelInfo e w of (r, w') \<Rightarrow> (map_sum id ServiceBody r, w'))"
| "PredictionsController e (GET_patient_history pid) w =
     (map_sum id HistoryBody (getPatientHistory pid w), w)"
| "PredictionsController e (GET_prediction ident) w =
     (map_sum id RowBody (findById ident w), w)"

text \<open>
  A sequence of calls of the controller, each with the environment it meets; the state
  after the last one.
\<close>

fun run :: "(env \<times> request) list \<Rightarrow> world \<Rightarrow> world" where
  "run [] w = w"
| "run ((e, r) # rest) w = run rest (snd (PredictionsController e r w))"

section \<open>The Risk Classifier of the specification\<close>

text \<open>
  Modelled from the spec: the Risk Classifier (\<open>classify\<close>, section 4.3), which none of
  the source files implements. The backend has no function from a score to a band: it
  stores the band the ML service sends, and the code of the ML service is not among the
  sources (of the thresholds only the comments of the enum \<open>RiskLevel\<close> and of
  \<open>Prediction.riskLevel\<close> are there). The spec: \<open>score < 0.30\<close> is LOW,
  \<open>0.30 \<le> score < 0.70\<close> is MEDIUM, \<open>score \<ge> 0.70\<close> is HIGH, and the classifier
  returns an error, without clamping, when the score is outside [0, 1].
\<close>

datatype classify_error = InvalidScore

definition classify :: "real \<Rightarrow> classify_error + RiskLevel" where
  "classify score =
     (if score < 0 \<or> 1 < score then Inl InvalidScore
      else if score < 0.30 then Inr LOW
      else if score < 0.70 then Inr MEDIUM
      else Inr HIGH)"

section \<open>A concrete scenario\<close>

text \<open>
  One patient with one clinical record (age 62, BMI 31.4, pressure 150/95, glucose 180,
  three earlier admissions, diabetes and hypertension, former smoker; cholesterol, HbA1c and
  the last stay not measured), a second patient without records, and an ML service that
  answers every request in a given way.
\<close>

definition patient_1 :: Patient where
  "patient_1 = \<lparr> patient_id = ''p1'', firstName = ''Maria'', lastName = ''Gonzalez'' \<rparr>"

definition patient_2 :: Patient where
  "patient_2 = \<lparr> patient_id = ''p2'', firstName = ''Juan'', lastName = ''Lopez'' \<rparr>"

definition record_1 :: ClinicalRecord where
  "record_1 =
     \<lparr> record_id = ''r1'', record_patientId = ''p1'', recordDate = 0, age = 62,
       bmi = Val 31.4, bloodPressureSystolic = Val 150, bloodPressureDiastolic = Val 95,
       glucoseLevel = Val 180, cholesterol = Null, hba1c = Null, previousAdmissions = 3,
       lastStayDuration = Undefined, hasDiabetes = True, hasHypertension = True,
       hasHeartDisease = False, smokingStatus = FORMER, record_createdById = ''u1'',
       record_createdAt = 0, record_notes = Null \<rparr>"

definition record_bare :: ClinicalRecord where
  "record_bare =
     \<lparr> record_id = ''r2'', record_patientId = ''p1'', recordDate = 1, age = 40,
       bmi = Null, bloodPressureSystolic = Undefined, bloodPressureDiastolic = Null,
       glucoseLevel = Undefined, cholesterol = Null, hba1c = Undefined,
       previousAdmissions = 0, lastStayDuration = Null, hasDiabetes = False,
       hasHypertension = False, hasHeartDisease = True, smokingStatus = NEVER,
       record_createdById = ''u1'', record_createdAt = 1, record_notes = Undefined \<rparr>"

definition record_full :: ClinicalRecord where
  "record_full =
     record_1\<lparr> cholesterol := Val 0, hba1c := Val 6.5, lastStayDuration := Val 0 \<rparr>"

definition world_0 :: world where
  "world_0 =
     \<lparr> patients = [patient_1, patient_2], clinicalRecords = [record_1], predictions = [],
       outbound = [], clock = 0 \<rparr>"

definition dto_1 :: RequestPredictionDto where
  "dto_1 =
     \<lparr> dto_patientId = ''p1'', dto_clinicalRecordId = ''r1'',
       dto_predictionType = READMISSION_RISK \<rparr>"

definition dto_2 :: RequestPredictionDto where
  "dto_2 =
     \<lparr> dto_patientId = ''p2'', dto_clinicalRecordId = ''r1'',
       dto_predictionType = READMISSION_RISK \<rparr>"

text \<open>A well-formed answer of the ML service with a given score and band.\<close>

definition answer :: "real \<Rightarrow> string \<Rightarrow> jsv" where
  "answer score band =
     JObject
       [(''success'', JBool True),
        (''prediction_type'', JString ''READMISSION_RISK''),
        (''risk_score'', JNumber score),
        (''risk_level'', JString band),
        (''model_version'', JString ''1.0.0''),
        (''model_algorithm'', JString ''logistic_regression''),
        (''feature_importance'', JObject [(''age'', JNumber 0.4)]),
        (''processing_time_ms'', JNumber 12)]"



text \<open>
  The entity that the first run on \<open>world_0\<close> returns for a well-formed answer, and the
  row it stores.
\<close>

definition stored_1 :: "real \<Rightarrow> string \<Rightarrow> Prediction" where
  "stored_1 score band =
     \<lparr> prediction_id = ''x'', patientId = ''p1'', clinicalRecordId = ''r1'',
       predictionType = READMISSION_RISK, riskScore = JNumber score,
       riskLevel = JString band, modelVersion = JString ''1.0.0'',
       modelAlgorithm = JString ''logistic_regression'',
       featuresUsed = prepareFeatures record_1,
       featureImportance = JObject [(''age'', JNumber 0.4)],
       processingTimeMs = JNumber 12, requestedById = ''u1'', createdAt = 0 \<rparr>"

definition row_1 :: "real \<Rightarrow> RiskLevel \<Rightarrow> PredictionRow" where
  "row_1 score band =
     \<lparr> row_id = ''x'', row_patientId = ''p1'', row_clinicalRecordId = ''r1'',
       row_predictionType = READMISSION_RISK, row_riskScore = Numeric score,
       row_riskLevel = band, row_modelVersion = ''1.0.0'',
       row_modelAlgorithm = ''logistic_regression'',
       row_featuresUsed = prepareFeatures record_1,
       row_featureImportance = JObject [(''age'', JNumber 0.4)],
       row_processingTimeMs = Some 12, row_requestedById = ''u1'', row_createdAt = 0 \<rparr>"



text \<open>
  The environment of the scenario. None of its runs makes the runtime print a number or the
  database read a text as a number, so these functions are fixed to the simplest values:
  the database of the scenario reads no text as a number. Its average is the exact one.
\<close>

fun numeric_sum :: "pg_numeric list \<Rightarrow> pg_numeric" where
  "numeric_sum [] = Numeric 0"
| "numeric_sum (NumericNaN # ns) = NumericNaN"
| "numeric_sum (Numeric x # ns) =
     (case numeric_sum ns of NumericNaN \<Rightarrow> NumericNaN | Numeric y \<Rightarrow> Numeric (x + y))"

definition exact_avg :: "pg_numeric list \<Rightarrow> pg_numeric" where
  "exact_avg ns =
     (case numeric_sum ns of
        NumericNaN \<Rightarrow> NumericNaN
      | Numeric total_sum \<Rightarrow> Numeric (total_sum / real (length ns)))"

definition service :: "http_result \<Rightarrow> env" where
  "service reply =
     \<lparr> post_predict = (\<lambda>kind features. reply),
       get_health = Rejected OtherError,
       get_model_info = Rejected OtherError,
       uuid_generate_v4 = (\<lambda>n. replicate (Suc n) (CHR ''x'')),
       Number_toString = (\<lambda>x. ''0''),
       numeric_in = (\<lambda>s. None),
       int4_in = (\<lambda>s. None),
       compound_text = (\<lambda>v. ''{}''),
       numeric_avg = exact_avg \<rparr>"

text \<open>
  Three successful runs on \<open>world_0\<close>, whose answers carry the bands LOW, HIGH and HIGH.
\<close>

definition three_calls :: "(env \<times> request) list" where
  "three_calls =
     [(service (Resolved (answer 0.25 ''LOW'')), POST_predictions dto_1 ''u1''),
      (service (Resolved (answer 0.82 ''HIGH'')), POST_predictions dto_1 ''u1''),
      (service (Resolved (answer 0.9 ''HIGH'')), POST_predictions dto_1 ''u2'')]"

text \<open>A store of 101 predictions, saved one after the other.\<close>

definition world_101 :: world where
  "world_101 =
     world_0\<lparr> predictions :=
                 map (\<lambda>n. (row_1 0.82 HIGH)\<lparr> row_id := replicate (Suc n) (CHR ''x''),
                                             row_createdAt := n \<rparr>) [0..<101],
               clock := 101 \<rparr>"

section \<open>Auxiliary facts about the orchestration\<close>

lemma requestPrediction_found:
  assumes "PatientsService_findById (dto_patientId dto) w = Inr pat"
    and "clinicalRecordRepository_findOne (dto_clinicalRecordId dto) (dto_patientId dto) w = Some r"
  shows "requestPrediction e dto u w =
     (case predict e (PredictionType_value (dto_predictionType dto)) (prepareFeatures r) w of
        (Inl err, w1) \<Rightarrow> (Inl err, w1)
      | (Inr body, w1) \<Rightarrow>
          if nullish body then (Inl TypeError, w1)
          else predictionRepository_save e (create_prediction dto u (prepareFeatures r) body) w1)"
  using assms by (simp add: requestPrediction_def Let_def)

lemma predict_resolved:
  assumes "post_predict e kind features = Resolved body" and "\<not> nullish body"
  shows "predict e kind features w
         = (Inr body, w\<lparr>outbound := outbound w @ [PostPredict kind features]\<rparr>)"
  using assms by (simp add: predict_def Let_def)

lemma predict_rejected:
  assumes "post_predict e kind features = Rejected err"
  shows "predict e kind features w
         = (Inl (handleMLServiceError e err),
            w\<lparr>outbound := outbound w @ [PostPredict kind features]\<rparr>)"
  using assms by (simp add: predict_def Let_def)

lemma predict_null_body:
  assumes "post_predict e kind features = Resolved body" and "nullish body"
  shows "predict e kind features w
         = (Inl (handleMLServiceError e OtherError),
            w\<lparr>outbound := outbound w @ [PostPredict kind features]\<rparr>)"
  using assms by (simp add: predict_def Let_def)


lemma requestPrediction_success:
  assumes "PatientsService_findById (dto_patientId dto) w = Inr pat"
    and "clinicalRecordRepository_findOne (dto_clinicalRecordId dto) (dto_patientId dto) w = Some r"
    and "post_predict e (PredictionType_value (dto_predictionType dto)) (prepareFeatures r)
         = Resolved body"
    and "\<not> nullish body"
    and "insert_row e (create_prediction dto u (prepareFeatures r) body)
           (uuid_generate_v4 e (clock w)) (clock w) = Inr row"
  shows "requestPrediction e dto u w =
     (Inr ((create_prediction dto u (prepareFeatures r) body)
              \<lparr>prediction_id := row_id row, createdAt := row_createdAt row\<rparr>),
      w\<lparr>outbound := outbound w @
             [PostPredict (PredictionType_value (dto_predictionType dto)) (prepareFeatures r)],
        predictions := predictions w @ [row],
        clock := Suc (clock w)\<rparr>)"
  using assms(3-5)
  by (simp add: requestPrediction_found [OF assms(1,2)] predict_resolved
      predictionRepository_save_def)

lemma requestPrediction_refused:
  assumes "PatientsService_findById (dto_patientId dto) w = Inr pat"
    and "clinicalRecordRepository_findOne (dto_clinicalRecordId dto) (dto_patientId dto) w = Some r"
    and "post_predict e (PredictionType_value (dto_predictionType dto)) (prepareFeatures r)
         = Resolved body"
    and "\<not> nullish body"
    and "insert_row e (create_prediction dto u (prepareFeatures r) body)
           (uuid_generate_v4 e (clock w)) (clock w) = Inl err"
  shows "requestPrediction e dto u w =
     (Inl (QueryFailedError err),
      w\<lparr>outbound := outbound w @
             [PostPredict (PredictionType_value (dto_predictionType dto)) (prepareFeatures r)]\<rparr>)"
  using assms(3-5)
  by (simp add: requestPrediction_found [OF assms(1,2)] predict_resolved
      predictionRepository_save_def)

lemma requestPrediction_rejected:
  assumes "PatientsService_findById (dto_patientId dto) w = Inr pat"
    and "clinicalRecordRepository_findOne (dto_clinicalRecordId dto) (dto_patientId dto) w = Some r"
    and "post_predict e (PredictionType_value (dto_predictionType dto)) (prepareFeatures r)
         = Rejected err"
  shows "requestPrediction e dto u w =
     (Inl (handleMLServiceError e err),
      w\<lparr>outbound := outbound w @
             [PostPredict (PredictionType_value (dto_predictionType dto)) (prepareFeatures r)]\<rparr>)"
  using assms(3)
  by (simp add: requestPrediction_found [OF assms(1,2)] predict_rejected)

lemma requestPrediction_null_body:
  assumes "PatientsService_findById (dto_patientId dto) w = Inr pat"
    and "clinicalRecordRepository_findOne (dto_clinicalRecordId dto) (dto_patientId dto) w = Some r"
    and "post_predict e (PredictionType_value (dto_predictionType dto)) (prepareFeatures r)
         = Resolved body"
    and "nullish body"
  shows "requestPrediction e dto u w =
     (Inl (handleMLServiceError e OtherError),
      w\<lparr>outbound := outbound w @
             [PostPredict (PredictionType_value (dto_predictionType dto)) (prepareFeatures r)]\<rparr>)"
  using assms(3,4)
  by (simp add: requestPrediction_found [OF assms(1,2)] predict_null_body)

lemma requestPrediction_Inr_elim:
  assumes "requestPrediction e dto u w = (Inr p, w')"
  obtains pat r body row where
    "PatientsService_findById (dto_patientId dto) w = Inr pat"
    "clinicalRecordRepository_findOne (dto_clinicalRecordId dto) (dto_patientId dto) w = Some r"
    "post_predict e (PredictionType_value (dto_predictionType dto)) (prepareFeatures r)
       = Resolved body"
    "\<not> nullish body"
    "insert_row e (create_prediction dto u (prepareFeatures r) body)
           (uuid_generate_v4 e (clock w)) (clock w) = Inr row"
proof (cases "PatientsService_findById (dto_patientId dto) w")
  case (Inl err)
  with assms show ?thesis by (simp add: requestPrediction_def)
next
  case pat: (Inr pat)
  show ?thesis
  proof (cases "clinicalRecordRepository_findOne (dto_clinicalRecordId dto) (dto_patientId dto) w")
    case None
    with assms pat show ?thesis by (simp add: requestPrediction_def)
  next
    case rec: (Some r)
    show ?thesis
    proof (cases "post_predict e (PredictionType_value (dto_predictionType dto)) (prepareFeatures r)")
      case (Rejected err)
      from requestPrediction_rejected [OF pat rec Rejected, of u] assms show ?thesis by simp
    next
      case res: (Resolved body)
      show ?thesis
      proof (cases "nullish body")
        case True
        from requestPrediction_null_body [OF pat rec res True, of u] assms show ?thesis by simp
      next
        case nn: False
        show ?thesis
        proof (cases "insert_row e (create_prediction dto u (prepareFeatures r) body)
           (uuid_generate_v4 e (clock w)) (clock w)")
          case (Inl err)
          from requestPrediction_refused [OF pat rec res nn Inl] assms show ?thesis by simp
        next
          case (Inr row)
          with pat rec res nn that show ?thesis by blast
        qed
      qed
    qed
  qed
qed


lemma requestPrediction_failed_keeps_tables:
  assumes "requestPrediction e dto u w = (Inl err, w')"
  shows "predictions w' = predictions w \<and> patients w' = patients w
         \<and> clinicalRecords w' = clinicalRecords w \<and> clock w' = clock w"
proof (cases "PatientsService_findById (dto_patientId dto) w")
  case (Inl x)
  with assms show ?thesis by (simp add: requestPrediction_def)
next
  case pat: (Inr pat)
  show ?thesis
  proof (cases "clinicalRecordRepository_findOne (dto_clinicalRecordId dto) (dto_patientId dto) w")
    case None
    with assms pat show ?thesis by (simp add: requestPrediction_def)
  next
    case rec: (Some r)
    show ?thesis
    proof (cases "post_predict e (PredictionType_value (dto_predictionType dto)) (prepareFeatures r)")
      case (Rejected x)
      from requestPrediction_rejected [OF pat rec Rejected, of u] assms show ?thesis
        by auto
    next
      case res: (Resolved body)
      show ?thesis
      proof (cases "nullish body")
        case True
        from requestPrediction_null_body [OF pat rec res True, of u] assms show ?thesis by auto
      next
        case nn: False
        show ?thesis
        proof (cases "insert_row e (create_prediction dto u (prepareFeatures r) body)
           (uuid_generate_v4 e (clock w)) (clock w)")
          case (Inl x)
          from requestPrediction_refused [OF pat rec res nn Inl] assms show ?thesis by auto
        next
          case (Inr row)
          from requestPrediction_success [OF pat rec res nn Inr] assms show ?thesis by simp
        qed
      qed
    qed
  qed
qed

lemma risk_level_column_Inr:
  "risk_level_column c v = Inr b \<Longrightarrow> v = JString (RiskLevel_value b)"
  by (cases "(c, v)" rule: risk_level_column.cases) (auto split: if_splits)

lemma numeric_column_number:
  "numeric_column c e (JNumber x) = Inr n \<Longrightarrow> n = Numeric (pg_round4 x) \<and> \<bar>pg_round4 x\<bar> < 10"
  by (auto split: if_splits)

lemma insert_row_Inr:
  assumes "insert_row e p i t = Inr row"
  shows "numeric_column ''risk_score'' e (riskScore p) = Inr (row_riskScore row)"
    and "risk_level_column ''risk_level'' (riskLevel p) = Inr (row_riskLevel row)"
    and "row_featuresUsed row = featuresUsed p"
    and "row_patientId row = patientId p"
    and "row_clinicalRecordId row = clinicalRecordId p"
    and "row_predictionType row = predictionType p"
    and "row_requestedById row = requestedById p"
    and "row_id row = i" and "row_createdAt row = t"
  using assms by (auto simp: insert_row_def split: sum.splits)


lemma world_0_patient: "PatientsService_findById ''p1'' world_0 = Inr patient_1"
  by (simp add: PatientsService_findById_def patientRepository_findOne_def world_0_def
      patient_1_def patient_2_def)

lemma world_0_record:
  "clinicalRecordRepository_findOne ''r1'' ''p1'' world_0 = Some record_1"
  by (simp add: clinicalRecordRepository_findOne_def world_0_def record_1_def)

lemma create_prediction_answer:
  "create_prediction dto_1 u (prepareFeatures record_1) (answer score band)
   = (stored_1 score band)\<lparr>prediction_id := [], requestedById := u\<rparr>"
  by (simp add: create_prediction_def answer_def stored_1_def dto_1_def)

lemma insert_row_answer:
  assumes "\<bar>pg_round4 score\<bar> < 10"
  shows "insert_row (service reply)
           (create_prediction dto_1 ''u1'' (prepareFeatures record_1)
              (answer score (RiskLevel_value b))) ''x'' 0
         = Inr (row_1 (pg_round4 score) b)"
  using assms
  by (cases b)
     (simp_all add: create_prediction_answer insert_row_def stored_1_def row_1_def
        varchar_50_def)

lemma run_1:
  assumes "\<bar>pg_round4 score\<bar> < 10"
  shows "requestPrediction (service (Resolved (answer score (RiskLevel_value b)))) dto_1 ''u1''
           world_0 =
    (Inr (stored_1 score (RiskLevel_value b)),
     world_0\<lparr>outbound := [PostPredict ''READMISSION_RISK'' (prepareFeatures record_1)],
       predictions := [row_1 (pg_round4 score) b],
       clock := 1\<rparr>)"
proof -
  let ?e = "service (Resolved (answer score (RiskLevel_value b)))"
  have pat: "PatientsService_findById (dto_patientId dto_1) world_0 = Inr patient_1"
    using world_0_patient by (simp add: dto_1_def)
  have rec: "clinicalRecordRepository_findOne (dto_clinicalRecordId dto_1) (dto_patientId dto_1)
      world_0 = Some record_1"
    using world_0_record by (simp add: dto_1_def)
  have ans: "post_predict ?e (PredictionType_value (dto_predictionType dto_1))
      (prepareFeatures record_1) = Resolved (answer score (RiskLevel_value b))"
    by (simp add: service_def)
  have nn: "\<not> nullish (answer score (RiskLevel_value b))"
    by (simp add: answer_def)
  have ins: "insert_row ?e
      (create_prediction dto_1 ''u1'' (prepareFeatures record_1)
         (answer score (RiskLevel_value b)))
      (uuid_generate_v4 ?e (clock world_0)) (clock world_0) = Inr (row_1 (pg_round4 score) b)"
    using insert_row_answer [OF assms, of "Resolved (answer score (RiskLevel_value b))" b]
    by (simp add: service_def world_0_def)
  have kind: "PredictionType_value (dto_predictionType dto_1) = ''READMISSION_RISK''"
    by (simp add: dto_1_def)
  from requestPrediction_success [OF pat rec ans nn ins]
  show ?thesis
    by (simp add: create_prediction_answer kind stored_1_def row_1_def world_0_def)
qed

lemma pg_round4_fixed: "x * 10000 = real_of_int k \<Longrightarrow> pg_round4 x = x"
proof -
  assume h: "x * 10000 = real_of_int k"
  have f: "\<lfloor>real_of_int j + 1 / 2\<rfloor> = j" for j :: int
    by linarith
  show ?thesis
  proof (cases "0 \<le> x")
    case True
    then show ?thesis using h by (simp add: pg_round4_def f)
  next
    case False
    have "- x * 10000 = real_of_int (- k)" using h by simp
    then have "\<lfloor>- x * 10000 + 1 / 2\<rfloor> = - k" by (simp only: f)
    with False h show ?thesis by (simp add: pg_round4_def)
  qed
qed

lemma pg_round4_examples:
  "pg_round4 0.82 = 0.82" "pg_round4 0.25 = 0.25" "pg_round4 0.9 = 0.9"
  "pg_round4 1.5 = 1.5" "pg_round4 0.123456 = 0.1235"
  by (simp_all add: pg_round4_def)



lemma find_None_iff_all: "find P xs = None \<longleftrightarrow> (\<forall>x \<in> set xs. \<not> P x)"
  by (induction xs) auto

lemma foreign_record_not_found:
  assumes "obs \<in> set (clinicalRecords w)"
    and "record_patientId obs \<noteq> p1"
    and "distinct (map record_id (clinicalRecords w))"
  shows "clinicalRecordRepository_findOne (record_id obs) p1 w = None"
proof -
  have "\<not> (record_id r = record_id obs \<and> record_patientId r = p1)"
    if "r \<in> set (clinicalRecords w)" for r
  proof
    assume h: "record_id r = record_id obs \<and> record_patientId r = p1"
    with that assms(1,3) have "r = obs"
      by (meson distinct_map inj_onD)
    with h assms(2) show False by simp
  qed
  then show ?thesis
    by (simp add: clinicalRecordRepository_findOne_def find_None_iff_all)
qed

lemma nullish_or_null_absent: "is_absent c \<Longrightarrow> nullish_or_null c = IsNull"
  by (cases c) simp_all

lemma requestPrediction_prefix:
  "prefix (predictions w) (predictions (snd (requestPrediction e dto u w)))"
proof (cases "requestPrediction e dto u w")
  case (Pair res w')
  show ?thesis
  proof (cases res)
    case (Inl err)
    with Pair requestPrediction_failed_keeps_tables [of e dto u w err w'] show ?thesis by simp
  next
    case (Inr p)
    with Pair obtain pat r body row where
      "PatientsService_findById (dto_patientId dto) w = Inr pat"
      "clinicalRecordRepository_findOne (dto_clinicalRecordId dto) (dto_patientId dto) w = Some r"
      "post_predict e (PredictionType_value (dto_predictionType dto)) (prepareFeatures r)
         = Resolved body"
      "\<not> nullish body"
      "insert_row e (create_prediction dto u (prepareFeatures r) body)
           (uuid_generate_v4 e (clock w)) (clock w) = Inr row"
      by (auto elim: requestPrediction_Inr_elim)
    from requestPrediction_success [OF this] show ?thesis by simp
  qed
qed

lemma PredictionsController_prefix:
  "prefix (predictions w) (predictions (snd (PredictionsController e r w)))"
proof (cases r)
  case (POST_predictions dto u)
  with requestPrediction_prefix [of w e dto u] show ?thesis
    by (auto split: prod.splits)
next
  case GET_ml_health
  then show ?thesis by (simp add: healthCheck_def Let_def split: http_result.splits)
next
  case GET_model_info
  then show ?thesis by (simp add: getModelInfo_def Let_def split: http_result.splits)
qed simp_all

lemma post_dto_1_appends:
  assumes "patients w = patients world_0" and "clinicalRecords w = clinicalRecords world_0"
    and "\<bar>pg_round4 s\<bar> < 10"
  shows "patients (snd (PredictionsController (service (Resolved (answer s (RiskLevel_value b))))
                     (POST_predictions dto_1 u) w)) = patients world_0
       \<and> clinicalRecords (snd (PredictionsController
                     (service (Resolved (answer s (RiskLevel_value b))))
                     (POST_predictions dto_1 u) w)) = clinicalRecords world_0
       \<and> map row_riskLevel (predictions (snd (PredictionsController
                     (service (Resolved (answer s (RiskLevel_value b))))
                     (POST_predictions dto_1 u) w)))
          = map row_riskLevel (predictions w) @ [b]"
proof -
  let ?e = "service (Resolved (answer s (RiskLevel_value b)))"
  have pat: "PatientsService_findById (dto_patientId dto_1) w = Inr patient_1"
    using world_0_patient
    by (simp add: PatientsService_findById_def patientRepository_findOne_def assms dto_1_def)
  have rec: "clinicalRecordRepository_findOne (dto_clinicalRecordId dto_1) (dto_patientId dto_1) w
      = Some record_1"
    using world_0_record
    by (simp add: clinicalRecordRepository_findOne_def assms dto_1_def)
  have ans: "post_predict ?e (PredictionType_value (dto_predictionType dto_1))
      (prepareFeatures record_1) = Resolved (answer s (RiskLevel_value b))"
    by (simp add: service_def)
  have nn: "\<not> nullish (answer s (RiskLevel_value b))" by (simp add: answer_def)
  obtain row where ins: "insert_row ?e
      (create_prediction dto_1 u (prepareFeatures record_1) (answer s (RiskLevel_value b)))
      (uuid_generate_v4 ?e (clock w)) (clock w) = Inr row" and lev: "row_riskLevel row = b"
    using assms(3)
    by (cases b)
       (simp_all add: create_prediction_answer insert_row_def stored_1_def varchar_50_def)
  from requestPrediction_success [OF pat rec ans nn ins] lev show ?thesis
    by (simp add: assms)
qed

lemma three_calls_bands:
  "map row_riskLevel (predictions (run three_calls world_0)) = [LOW, HIGH, HIGH]"
proof -
  let ?w1 = "snd (PredictionsController (service (Resolved (answer 0.25 ''LOW'')))
                     (POST_predictions dto_1 ''u1'') world_0)"
  let ?w2 = "snd (PredictionsController (service (Resolved (answer 0.82 ''HIGH'')))
                     (POST_predictions dto_1 ''u1'') ?w1)"
  let ?w3 = "snd (PredictionsController (service (Resolved (answer 0.9 ''HIGH'')))
                     (POST_predictions dto_1 ''u2'') ?w2)"
  have r: "\<bar>pg_round4 0.25\<bar> < 10" "\<bar>pg_round4 0.82\<bar> < 10" "\<bar>pg_round4 0.9\<bar> < 10"
    by (simp_all only: pg_round4_examples) simp_all
  have w0: "patients world_0 = patients world_0" "clinicalRecords world_0 = clinicalRecords world_0"
    by simp_all
  have s1: "patients ?w1 = patients world_0" "clinicalRecords ?w1 = clinicalRecords world_0"
    "map row_riskLevel (predictions ?w1) = [LOW]"
    using post_dto_1_appends [OF w0 r(1), of LOW "''u1''"]
    by (simp_all add: world_0_def)
  have s2: "patients ?w2 = patients world_0" "clinicalRecords ?w2 = clinicalRecords world_0"
    "map row_riskLevel (predictions ?w2) = [LOW, HIGH]"
    using post_dto_1_appends [OF s1(1,2) r(2), of HIGH "''u1''"] s1(3)
    by simp_all
  have s3: "map row_riskLevel (predictions ?w3) = [LOW, HIGH, HIGH]"
    using post_dto_1_appends [OF s2(1,2) r(3), of HIGH "''u2''"] s2(3)
    by simp
  have "run three_calls world_0 = ?w3"
    by (simp only: three_calls_def run.simps)
  with s3 show ?thesis by simp
qed

lemma group_count_rows:
  "(k, n) \<in> set (group_count ks) \<longleftrightarrow> n = count_list ks k \<and> 0 < n"
proof -
  have "0 < count_list ks k \<longleftrightarrow> k \<in> set ks"
    using count_list_0_iff [of ks k] by auto
  then show ?thesis by (auto simp: group_count_def)
qed

lemma group_count_distinct: "distinct (map fst (group_count ks))"
  by (simp add: group_count_def comp_def)

lemma group_count_of_two_keys:
  assumes "mset ks = {#a, b, b#}" and "a \<noteq> b"
  shows "length ks = 3" and "count_list ks b = 2"
    and "set (group_count ks) = {(a, 1), (b, 2)}" and "length (group_count ks) = 2"
proof -
  have cnt: "count_list ks k = count {#a, b, b#} k" for k
    using assms(1) by (metis count_mset)
  have keys: "set ks = {a, b}"
    using assms(1) by (metis set_mset_mset set_mset_add_mset_insert set_mset_empty insert_absorb2)
  have "length ks = size (mset ks)" by simp
  also have "\<dots> = 3" by (simp only: assms(1)) simp
  finally show "length ks = 3" .
  show "count_list ks b = 2" using assms(2) by (simp add: cnt)
  show "set (group_count ks) = {(a, 1), (b, 2)}"
    using assms(2) by (auto simp: group_count_def keys cnt)
  show "length (group_count ks) = 2"
    using assms(2) by (simp add: group_count_def length_remdups_card_conv keys)
qed

lemma length_filter_band:
  "length (filter (\<lambda>p. row_riskLevel p = b) ps) = count_list (map row_riskLevel ps) b"
  by (induction ps) simp_all

lemma length_order_createdAt_DESC: "length (order_createdAt_DESC rows) = length rows"
  by (simp add: order_createdAt_DESC_def)

lemma page_size_capped_for_positive_limit:
  assumes "0 < limit" and "1 \<le> page" and "(page - 1) * min limit 100 < 2 ^ 63"
  shows "\<exists>result. controller_findAll (Some page) (Some limit) w = Inr result
           \<and> length (data result) \<le> nat (min limit 100) \<and> meta_limit result = min limit 100"
proof -
  have m: "0 < min limit 100" using assms(1) by simp
  then have "0 \<le> (page - 1) * min limit 100" using assms(2) by simp
  with m assms(3) show ?thesis
    by (simp add: controller_findAll_def findAll_def predictionRepository_findAndCount_def
        Let_def not_less)
qed

section \<open>Feature mapping\<close>

text \<open>
  Claim C6. The feature mapping is a pure function of the measurements of the clinical
  record: changing the identifier, the owner, the dates, the author or the notes of the
  record does not change the vector, so mapping the same observation again gives the same
  vector. Each of the seven optional measurements (BMI, systolic and diastolic pressure,
  glucose, cholesterol, HbA1c, duration of the last stay) maps to the explicit null marker
  when it is absent, and to its own value when it is present (a measured zero is
  \<open>NotNull 0\<close>, not the marker); the three flags and the smoking status carry the
  record's values.
\<close>

theorem prepareFeatures_pure_null_marked:
  "prepareFeatures
       (r\<lparr>record_id := i, record_patientId := p, recordDate := d, record_createdById := c,
          record_createdAt := t, record_notes := n\<rparr>) = prepareFeatures r
   \<and> (is_absent (bmi r) \<longrightarrow> f_bmi (prepareFeatures r) = IsNull)
   \<and> (is_absent (bloodPressureSystolic r) \<longrightarrow> blood_pressure_systolic (prepareFeatures r) = IsNull)
   \<and> (is_absent (bloodPressureDiastolic r) \<longrightarrow> blood_pressure_diastolic (prepareFeatures r) = IsNull)
   \<and> (is_absent (glucoseLevel r) \<longrightarrow> glucose_level (prepareFeatures r) = IsNull)
   \<and> (is_absent (cholesterol r) \<longrightarrow> f_cholesterol (prepareFeatures r) = IsNull)
   \<and> (is_absent (hba1c r) \<longrightarrow> f_hba1c (prepareFeatures r) = IsNull)
   \<and> (is_absent (lastStayDuration r) \<longrightarrow> last_stay_duration (prepareFeatures r) = IsNull)
   \<and> (bmi r = Val va \<longrightarrow> f_bmi (prepareFeatures r) = NotNull va)
   \<and> (bloodPressureSystolic r = Val vb \<longrightarrow> blood_pressure_systolic (prepareFeatures r) = NotNull vb)
   \<and> (bloodPressureDiastolic r = Val vc \<longrightarrow> blood_pressure_diastolic (prepareFeatures r) = NotNull vc)
   \<and> (glucoseLevel r = Val vd \<longrightarrow> glucose_level (prepareFeatures r) = NotNull vd)
   \<and> (cholesterol r = Val ve \<longrightarrow> f_cholesterol (prepareFeatures r) = NotNull ve)
   \<and> (hba1c r = Val vf \<longrightarrow> f_hba1c (prepareFeatures r) = NotNull vf)
   \<and> (lastStayDuration r = Val vg \<longrightarrow> last_stay_duration (prepareFeatures r) = NotNull vg)
   \<and> has_diabetes (prepareFeatures r) = hasDiabetes r
   \<and> has_hypertension (prepareFeatures r) = hasHypertension r
   \<and> has_heart_disease (prepareFeatures r) = hasHeartDisease r
   \<and> smoking_status (prepareFeatures r) = SmokingStatus_value (smokingStatus r)"
  by (simp add: prepareFeatures_def nullish_or_null_absent)

theorem prepareFeatures_pure_null_marked_witness:
  "is_absent (bmi record_bare) \<and> f_bmi (prepareFeatures record_bare) = IsNull
   \<and> is_absent (bloodPressureSystolic record_bare)
   \<and> blood_pressure_systolic (prepareFeatures record_bare) = IsNull
   \<and> is_absent (bloodPressureDiastolic record_bare)
   \<and> blood_pressure_diastolic (prepareFeatures record_bare) = IsNull
   \<and> is_absent (glucoseLevel record_bare) \<and> glucose_level (prepareFeatures record_bare) = IsNull
   \<and> is_absent (cholesterol record_bare) \<and> f_cholesterol (prepareFeatures record_bare) = IsNull
   \<and> is_absent (hba1c record_bare) \<and> f_hba1c (prepareFeatures record_bare) = IsNull
   \<and> is_absent (lastStayDuration record_bare)
   \<and> last_stay_duration (prepareFeatures record_bare) = IsNull
   \<and> bmi record_full = Val 31.4 \<and> f_bmi (prepareFeatures record_full) = NotNull 31.4
   \<and> bloodPressureSystolic record_full = Val 150
   \<and> blood_pressure_systolic (prepareFeatures record_full) = NotNull 150
   \<and> bloodPressureDiastolic record_full = Val 95
   \<and> blood_pressure_diastolic (prepareFeatures record_full) = NotNull 95
   \<and> glucoseLevel record_full = Val 180 \<and> glucose_level (prepareFeatures record_full) = NotNull 180
   \<and> cholesterol record_full = Val 0 \<and> f_cholesterol (prepareFeatures record_full) = NotNull 0
   \<and> hba1c record_full = Val 6.5 \<and> f_hba1c (prepareFeatures record_full) = NotNull 6.5
   \<and> lastStayDuration record_full = Val 0
   \<and> last_stay_duration (prepareFeatures record_full) = NotNull 0
   \<and> smoking_status (prepareFeatures record_full) = ''FORMER''"
proof -
  have absent:
    "is_absent (bmi record_bare)" "is_absent (bloodPressureSystolic record_bare)"
    "is_absent (bloodPressureDiastolic record_bare)" "is_absent (glucoseLevel record_bare)"
    "is_absent (cholesterol record_bare)" "is_absent (hba1c record_bare)"
    "is_absent (lastStayDuration record_bare)"
    by (simp_all add: record_bare_def)
  have present:
    "bmi record_full = Val 31.4" "bloodPressureSystolic record_full = Val 150"
    "bloodPressureDiastolic record_full = Val 95" "glucoseLevel record_full = Val 180"
    "cholesterol record_full = Val 0" "hba1c record_full = Val 6.5"
    "lastStayDuration record_full = Val 0" "smokingStatus record_full = FORMER"
    by (simp_all add: record_full_def record_1_def)
  show ?thesis
    using absent present
      prepareFeatures_pure_null_marked [where r = record_bare]
      prepareFeatures_pure_null_marked
        [where r = record_full and va = "31.4" and vb = 150 and vc = 95 and vd = 180
           and ve = 0 and vf = "6.5" and vg = 0]
    by simp
qed

section \<open>The Risk Classifier\<close>

text \<open>
  Claim C2. The risk classifier, as the specification defines it, is total on [0, 1] with
  fixed thresholds: every score in [0, 0.30) is LOW, in [0.30, 0.70) MEDIUM, in [0.70, 1.0]
  HIGH; and for every score outside [0, 1] it fails with an error, neither clamping nor
  classifying.
\<close>

theorem classify_thresholds_and_range:
  "(0 \<le> s \<and> s < 0.30 \<longrightarrow> classify s = Inr LOW)
   \<and> (0.30 \<le> s \<and> s < 0.70 \<longrightarrow> classify s = Inr MEDIUM)
   \<and> (0.70 \<le> s \<and> s \<le> 1.0 \<longrightarrow> classify s = Inr HIGH)
   \<and> (s < 0 \<or> 1 < s \<longrightarrow> classify s = Inl InvalidScore)
   \<and> (0 \<le> s \<and> s \<le> 1 \<longrightarrow> (\<exists>band. classify s = Inr band))"
  by (simp add: classify_def)

theorem classify_thresholds_and_range_witness:
  "(0::real) \<le> 0.25 \<and> (0.25::real) < 0.30 \<and> classify 0.25 = Inr LOW
   \<and> (0::real) \<le> 0 \<and> classify 0 = Inr LOW
   \<and> (0.30::real) \<le> 0.30 \<and> (0.30::real) < 0.70 \<and> classify 0.30 = Inr MEDIUM
   \<and> (0.70::real) \<le> 0.70 \<and> classify 0.70 = Inr HIGH
   \<and> (0.70::real) \<le> 1 \<and> (1::real) \<le> 1.0 \<and> classify 1 = Inr HIGH
   \<and> (-0.5::real) < 0 \<and> classify (-0.5) = Inl InvalidScore
   \<and> (1::real) < 1.5 \<and> classify 1.5 = Inl InvalidScore"
  using classify_thresholds_and_range [of "0.25"] classify_thresholds_and_range [of 0]
    classify_thresholds_and_range [of "0.30"] classify_thresholds_and_range [of "0.70"]
    classify_thresholds_and_range [of 1] classify_thresholds_and_range [of "-0.5"]
    classify_thresholds_and_range [of "1.5"]
  by simp

section \<open>The stored band\<close>

text \<open>
  Claim C1, as amended. In every successful orchestration run the band stored on the
  persisted Prediction is the \<open>risk_level\<close> that the ML service returned for the feature
  vector of the selected clinical record, copied as it is, on the entity returned as in the
  row of the table; the backend computes no band of its own, so when the returned band
  disagrees with the thresholds the stored band is the returned one.
\<close>

theorem stored_band_is_remote_band:
  assumes "requestPrediction e dto u w = (Inr p, w')"
  shows "\<exists>r body row.
      clinicalRecordRepository_findOne (dto_clinicalRecordId dto) (dto_patientId dto) w = Some r
    \<and> post_predict e (PredictionType_value (dto_predictionType dto)) (prepareFeatures r)
        = Resolved body
    \<and> get_prop ''risk_level'' body = JString (RiskLevel_value (row_riskLevel row))
    \<and> riskLevel p = get_prop ''risk_level'' body
    \<and> predictions w' = predictions w @ [row]"
proof -
  from assms obtain pat r body row where
    pat: "PatientsService_findById (dto_patientId dto) w = Inr pat" and
    rec: "clinicalRecordRepository_findOne (dto_clinicalRecordId dto) (dto_patientId dto) w
          = Some r" and
    ans: "post_predict e (PredictionType_value (dto_predictionType dto)) (prepareFeatures r)
          = Resolved body" and
    nn: "\<not> nullish body" and
    ins: "insert_row e (create_prediction dto u (prepareFeatures r) body)
           (uuid_generate_v4 e (clock w)) (clock w) = Inr row"
    by (rule requestPrediction_Inr_elim)
  from requestPrediction_success [OF pat rec ans nn ins] assms
  have p: "p = (create_prediction dto u (prepareFeatures r) body)
              \<lparr>prediction_id := row_id row, createdAt := row_createdAt row\<rparr>"
    and w': "predictions w' = predictions w @ [row]"
    by auto
  have band: "get_prop ''risk_level'' body = JString (RiskLevel_value (row_riskLevel row))"
    using insert_row_Inr(2) [OF ins] risk_level_column_Inr
    by (simp add: create_prediction_def)
  have "riskLevel p = get_prop ''risk_level'' body"
    by (simp add: p create_prediction_def)
  with rec ans band w' show ?thesis by blast
qed

theorem stored_band_is_remote_band_witness:
  "requestPrediction (service (Resolved (answer 0.82 ''LOW''))) dto_1 ''u1'' world_0
     = (Inr (stored_1 0.82 ''LOW''),
        world_0\<lparr>outbound := [PostPredict ''READMISSION_RISK'' (prepareFeatures record_1)],
          predictions := [row_1 0.82 LOW], clock := 1\<rparr>)
   \<and> (\<exists>r body row.
      clinicalRecordRepository_findOne (dto_clinicalRecordId dto_1) (dto_patientId dto_1) world_0
        = Some r
    \<and> post_predict (service (Resolved (answer 0.82 ''LOW'')))
          (PredictionType_value (dto_predictionType dto_1)) (prepareFeatures r) = Resolved body
    \<and> get_prop ''risk_level'' body = JString (RiskLevel_value (row_riskLevel row))
    \<and> riskLevel (stored_1 0.82 ''LOW'') = get_prop ''risk_level'' body
    \<and> predictions
        (world_0\<lparr>outbound := [PostPredict ''READMISSION_RISK'' (prepareFeatures record_1)],
           predictions := [row_1 0.82 LOW], clock := 1\<rparr>)
       = predictions world_0 @ [row])"
proof -
  have run: "requestPrediction (service (Resolved (answer 0.82 ''LOW''))) dto_1 ''u1'' world_0
     = (Inr (stored_1 0.82 ''LOW''),
        world_0\<lparr>outbound := [PostPredict ''READMISSION_RISK'' (prepareFeatures record_1)],
          predictions := [row_1 0.82 LOW], clock := 1\<rparr>)"
    using run_1 [of "0.82" LOW] by (simp only: pg_round4_examples RiskLevel_value.simps) simp
  from run stored_band_is_remote_band [OF run] show ?thesis by (rule conjI)
qed

text \<open>
  The claim as stated makes the local classification win. The run whose ML service answers
  with the score 0.82 and the band LOW stores LOW, on the entity and in the row, while the
  classifier gives HIGH for 0.82.
\<close>

theorem local_band_not_stored_counterexample:
  "map_sum id riskLevel
      (fst (requestPrediction (service (Resolved (answer 0.82 ''LOW''))) dto_1 ''u1'' world_0))
     = Inr (JString ''LOW'')
   \<and> map row_riskLevel
        (predictions
          (snd (requestPrediction (service (Resolved (answer 0.82 ''LOW''))) dto_1 ''u1''
                  world_0)))
     = [LOW]
   \<and> classify 0.82 = Inr HIGH"
proof -
  have run: "requestPrediction (service (Resolved (answer 0.82 ''LOW''))) dto_1 ''u1'' world_0
     = (Inr (stored_1 0.82 ''LOW''),
        world_0\<lparr>outbound := [PostPredict ''READMISSION_RISK'' (prepareFeatures record_1)],
          predictions := [row_1 0.82 LOW], clock := 1\<rparr>)"
    using run_1 [of "0.82" LOW] by (simp only: pg_round4_examples RiskLevel_value.simps) simp
  show ?thesis
    unfolding run by (simp add: stored_1_def row_1_def classify_def)
qed

section \<open>Failures of the ML service\<close>




section \<open>Ownership of the clinical record\<close>

text \<open>
  Claim C4. When the clinical record named in the request is owned by another patient than
  the one named (identifiers of clinical records being unique, as the primary key makes
  them), the run fails with a not-found exception for every prediction kind and every
  actor, and the state is the one before the run: nothing was sent to the ML service and
  nothing was stored.
\<close>

theorem foreign_observation_not_found:
  assumes "obs \<in> set (clinicalRecords w)"
    and "record_patientId obs \<noteq> p1"
    and "distinct (map record_id (clinicalRecords w))"
    and "dto_patientId dto = p1" and "dto_clinicalRecordId dto = record_id obs"
  shows "\<exists>msg. requestPrediction e dto actor w = (Inl (NotFoundException msg), w)"
proof (cases "PatientsService_findById p1 w")
  case (Inl err)
  then obtain msg where "err = NotFoundException msg"
    by (auto simp: PatientsService_findById_def split: option.splits)
  with Inl assms(4) show ?thesis by (simp add: requestPrediction_def)
next
  case (Inr pat)
  with foreign_record_not_found [OF assms(1-3)] assms(4,5) show ?thesis
    by (simp add: requestPrediction_def)
qed

theorem foreign_observation_not_found_witness:
  "record_1 \<in> set (clinicalRecords world_0) \<and> record_patientId record_1 \<noteq> ''p2''
   \<and> distinct (map record_id (clinicalRecords world_0))
   \<and> (\<exists>msg. requestPrediction (service (Resolved (answer 0.82 ''HIGH''))) dto_2 ''u1'' world_0
          = (Inl (NotFoundException msg), world_0))"
proof -
  have h: "record_1 \<in> set (clinicalRecords world_0)" "record_patientId record_1 \<noteq> ''p2''"
    "distinct (map record_id (clinicalRecords world_0))"
    "dto_patientId dto_2 = ''p2''" "dto_clinicalRecordId dto_2 = record_id record_1"
    by (simp_all add: world_0_def record_1_def dto_2_def)
  from foreign_observation_not_found [OF h] h show ?thesis by blast
qed

section \<open>The inference client\<close>




section \<open>The persisted snapshot\<close>

text \<open>
  Claim C7, as amended. A successfully persisted Prediction embeds, on the entity returned
  and in the row of the table, the feature vector that was sent to the ML service in that
  run, which is the feature mapping of the clinical record the Prediction refers to, before
  and after the run. The entity returned carries the score of the answer as received; the
  row holds that score rounded to the four decimal places of its column (and of magnitude
  below 10), so a score with at most four decimal places, such as 0.82, is stored
  unchanged.
\<close>

theorem persisted_prediction_embeds_sent_features:
  assumes "requestPrediction e dto u w = (Inr p, w')"
  shows "\<exists>r body row.
      clinicalRecordRepository_findOne (clinicalRecordId p) (patientId p) w = Some r
    \<and> clinicalRecordRepository_findOne (clinicalRecordId p) (patientId p) w' = Some r
    \<and> record_id r = clinicalRecordId p
    \<and> outbound w' = outbound w @
         [PostPredict (PredictionType_value (predictionType p)) (prepareFeatures r)]
    \<and> post_predict e (PredictionType_value (predictionType p)) (prepareFeatures r)
        = Resolved body
    \<and> predictions w' = predictions w @ [row]
    \<and> row_clinicalRecordId row = record_id r
    \<and> row_featuresUsed row = prepareFeatures r
    \<and> featuresUsed p = prepareFeatures r
    \<and> riskScore p = get_prop ''risk_score'' body
    \<and> (\<forall>x. get_prop ''risk_score'' body = JNumber x \<longrightarrow>
          row_riskScore row = Numeric (pg_round4 x) \<and> \<bar>pg_round4 x\<bar> < 10)
    \<and> (\<forall>x k. get_prop ''risk_score'' body = JNumber x \<and> x * 10000 = real_of_int k \<longrightarrow>
          row_riskScore row = Numeric x)"
proof -
  from assms obtain pat r body row where
    pat: "PatientsService_findById (dto_patientId dto) w = Inr pat" and
    rec: "clinicalRecordRepository_findOne (dto_clinicalRecordId dto) (dto_patientId dto) w
          = Some r" and
    ans: "post_predict e (PredictionType_value (dto_predictionType dto)) (prepareFeatures r)
          = Resolved body" and
    nn: "\<not> nullish body" and
    ins: "insert_row e (create_prediction dto u (prepareFeatures r) body)
           (uuid_generate_v4 e (clock w)) (clock w) = Inr row"
    by (rule requestPrediction_Inr_elim)
  let ?c = "create_prediction dto u (prepareFeatures r) body"
  from requestPrediction_success [OF pat rec ans nn ins] assms
  have p: "p = ?c\<lparr>prediction_id := row_id row, createdAt := row_createdAt row\<rparr>"
    and w': "w' = w\<lparr>outbound := outbound w @
             [PostPredict (PredictionType_value (dto_predictionType dto)) (prepareFeatures r)],
        predictions := predictions w @ [row],
        clock := Suc (clock w)\<rparr>"
    by auto
  have fields: "patientId p = dto_patientId dto" "clinicalRecordId p = dto_clinicalRecordId dto"
    "predictionType p = dto_predictionType dto" "featuresUsed p = prepareFeatures r"
    "riskScore p = get_prop ''risk_score'' body"
    by (simp_all add: p create_prediction_def)
  from rec have rid: "record_id r = dto_clinicalRecordId dto"
    by (auto simp: clinicalRecordRepository_findOne_def find_Some_iff)
  have same: "clinicalRecordRepository_findOne i q w' = clinicalRecordRepository_findOne i q w"
    for i q
    by (simp add: w' clinicalRecordRepository_findOne_def)
  have score: "numeric_column ''risk_score'' e (get_prop ''risk_score'' body)
      = Inr (row_riskScore row)"
    using insert_row_Inr(1) [OF ins] by (simp add: create_prediction_def)
  have c1: "clinicalRecordRepository_findOne (clinicalRecordId p) (patientId p) w = Some r"
    using rec by (simp add: fields)
  have c2: "clinicalRecordRepository_findOne (clinicalRecordId p) (patientId p) w' = Some r"
    using rec by (simp add: same fields)
  have c3: "record_id r = clinicalRecordId p" using rid by (simp add: fields)
  have c4: "outbound w' = outbound w @
         [PostPredict (PredictionType_value (predictionType p)) (prepareFeatures r)]"
    by (simp add: w' fields)
  have c5: "post_predict e (PredictionType_value (predictionType p)) (prepareFeatures r)
      = Resolved body"
    using ans by (simp add: fields)
  have c6: "predictions w' = predictions w @ [row]" by (simp add: w')
  have c7: "row_clinicalRecordId row = record_id r"
    using insert_row_Inr(5) [OF ins] rid by (simp add: create_prediction_def)
  have c8: "row_featuresUsed row = prepareFeatures r"
    using insert_row_Inr(3) [OF ins] by (simp add: create_prediction_def)
  have c9: "row_riskScore row = Numeric (pg_round4 x) \<and> \<bar>pg_round4 x\<bar> < 10"
    if "get_prop ''risk_score'' body = JNumber x" for x
    using score numeric_column_number [of "''risk_score''" e x "row_riskScore row"]
    by (simp only: that)
  have c10: "row_riskScore row = Numeric x"
    if "get_prop ''risk_score'' body = JNumber x \<and> x * 10000 = real_of_int k" for x k
    using c9 [of x] pg_round4_fixed [of x k] that by simp
  from c1 c2 c3 c4 c5 c6 c7 c8 fields(4,5) c9 c10 show ?thesis by blast
qed

theorem persisted_prediction_embeds_sent_features_witness:
  "requestPrediction (service (Resolved (answer 0.82 ''HIGH''))) dto_1 ''u1'' world_0
     = (Inr (stored_1 0.82 ''HIGH''),
        world_0\<lparr>outbound := [PostPredict ''READMISSION_RISK'' (prepareFeatures record_1)],
          predictions := [row_1 0.82 HIGH], clock := 1\<rparr>)
   \<and> riskScore (stored_1 0.82 ''HIGH'') = JNumber 0.82
   \<and> row_riskScore (row_1 0.82 HIGH) = Numeric 0.82
   \<and> row_riskLevel (row_1 0.82 HIGH) = HIGH
   \<and> row_featuresUsed (row_1 0.82 HIGH) = prepareFeatures record_1
   \<and> (0.82::real) * 10000 = real_of_int 8200
   \<and> (\<exists>r body row.
        clinicalRecordRepository_findOne ''r1'' ''p1'' world_0 = Some r
      \<and> record_id r = ''r1''
      \<and> post_predict (service (Resolved (answer 0.82 ''HIGH''))) ''READMISSION_RISK''
           (prepareFeatures r) = Resolved body
      \<and> get_prop ''risk_score'' body = JNumber 0.82
      \<and> [row_1 0.82 HIGH] = predictions world_0 @ [row]
      \<and> row_featuresUsed row = prepareFeatures r
      \<and> row_riskScore row = Numeric 0.82)"
proof -
  have run: "requestPrediction (service (Resolved (answer 0.82 ''HIGH''))) dto_1 ''u1'' world_0
     = (Inr (stored_1 0.82 ''HIGH''),
        world_0\<lparr>outbound := [PostPredict ''READMISSION_RISK'' (prepareFeatures record_1)],
          predictions := [row_1 0.82 HIGH], clock := 1\<rparr>)"
    using run_1 [of "0.82" HIGH] by (simp only: pg_round4_examples RiskLevel_value.simps) simp
  from persisted_prediction_embeds_sent_features [OF run]
  obtain r body row where h:
    "clinicalRecordRepository_findOne (clinicalRecordId (stored_1 0.82 ''HIGH''))
        (patientId (stored_1 0.82 ''HIGH'')) world_0 = Some r"
    "record_id r = clinicalRecordId (stored_1 0.82 ''HIGH'')"
    "post_predict (service (Resolved (answer 0.82 ''HIGH'')))
        (PredictionType_value (predictionType (stored_1 0.82 ''HIGH''))) (prepareFeatures r)
      = Resolved body"
    "predictions
        (world_0\<lparr>outbound := [PostPredict ''READMISSION_RISK'' (prepareFeatures record_1)],
          predictions := [row_1 0.82 HIGH], clock := 1\<rparr>) = predictions world_0 @ [row]"
    "row_featuresUsed row = prepareFeatures r"
    "riskScore (stored_1 0.82 ''HIGH'') = get_prop ''risk_score'' body"
    "\<forall>x k. get_prop ''risk_score'' body = JNumber x \<and> x * 10000 = real_of_int k \<longrightarrow>
          row_riskScore row = Numeric x"
    by blast
  have s: "clinicalRecordId (stored_1 0.82 ''HIGH'') = ''r1''"
    "patientId (stored_1 0.82 ''HIGH'') = ''p1''"
    "PredictionType_value (predictionType (stored_1 0.82 ''HIGH'')) = ''READMISSION_RISK''"
    "riskScore (stored_1 0.82 ''HIGH'') = JNumber 0.82"
    by (simp_all add: stored_1_def)
  have k: "(0.82::real) * 10000 = real_of_int 8200" by simp
  have body: "get_prop ''risk_score'' body = JNumber 0.82"
    using h(6) by (simp only: s)
  with h(7) k have sc: "row_riskScore row = Numeric 0.82" by blast
  have rows: "[row_1 0.82 HIGH] = predictions world_0 @ [row]"
    using h(4) by simp
  have ex: "\<exists>r body row.
        clinicalRecordRepository_findOne ''r1'' ''p1'' world_0 = Some r
      \<and> record_id r = ''r1''
      \<and> post_predict (service (Resolved (answer 0.82 ''HIGH''))) ''READMISSION_RISK''
           (prepareFeatures r) = Resolved body
      \<and> get_prop ''risk_score'' body = JNumber 0.82
      \<and> [row_1 0.82 HIGH] = predictions world_0 @ [row]
      \<and> row_featuresUsed row = prepareFeatures r
      \<and> row_riskScore row = Numeric 0.82"
    using h(1,2,3,5) body rows sc unfolding s by blast
  have vals: "row_riskScore (row_1 0.82 HIGH) = Numeric 0.82"
    "row_riskLevel (row_1 0.82 HIGH) = HIGH"
    "row_featuresUsed (row_1 0.82 HIGH) = prepareFeatures record_1"
    by (simp_all add: row_1_def)
  from run s(4) vals k ex show ?thesis by blast
qed

text \<open>
  The claim as stated has the score stored unchanged. For the answer with the score
  0.123456 the row holds 0.1235, while the entity returned holds 0.123456.
\<close>

theorem score_rounded_counterexample:
  "map row_riskScore
      (predictions
        (snd (requestPrediction (service (Resolved (answer 0.123456 ''LOW''))) dto_1 ''u1''
                world_0)))
     = [Numeric 0.1235]
   \<and> map_sum id riskScore
        (fst (requestPrediction (service (Resolved (answer 0.123456 ''LOW''))) dto_1 ''u1''
                world_0))
     = Inr (JNumber 0.123456)"
proof -
  have run: "requestPrediction (service (Resolved (answer 0.123456 ''LOW''))) dto_1 ''u1'' world_0
     = (Inr (stored_1 0.123456 ''LOW''),
        world_0\<lparr>outbound := [PostPredict ''READMISSION_RISK'' (prepareFeatures record_1)],
          predictions := [row_1 0.1235 LOW], clock := 1\<rparr>)"
    using run_1 [of "0.123456" LOW] by (simp only: pg_round4_examples RiskLevel_value.simps) simp
  show ?thesis
    unfolding run by (simp add: stored_1_def row_1_def)
qed

section \<open>The prediction store\<close>

text \<open>
  Claim C8. The routes of the controller only add to the stored predictions or leave them
  as they are: after any sequence of calls, the predictions stored before it are still
  there, unchanged and in the same places, followed by those the sequence added. No route
  updates or deletes a Prediction.
\<close>

theorem prediction_store_append_only:
  "prefix (predictions w) (predictions (run calls w))"
proof (induction calls arbitrary: w)
  case Nil
  show ?case by simp
next
  case (Cons call calls)
  obtain e r where call: "call = (e, r)" by (cases call)
  have "prefix (predictions w) (predictions (snd (PredictionsController e r w)))"
    by (rule PredictionsController_prefix)
  also have "prefix \<dots> (predictions (run calls (snd (PredictionsController e r w))))"
    by (rule Cons.IH)
  finally show ?case by (simp add: call)
qed

theorem prediction_store_append_only_witness:
  "prefix (predictions (run [(service (Resolved (answer 0.25 ''LOW'')),
                               POST_predictions dto_1 ''u1'')] world_0))
     (predictions (run three_calls world_0))"
proof -
  have "run three_calls world_0
      = run [(service (Resolved (answer 0.82 ''HIGH'')), POST_predictions dto_1 ''u1''),
             (service (Resolved (answer 0.9 ''HIGH'')), POST_predictions dto_1 ''u2'')]
          (run [(service (Resolved (answer 0.25 ''LOW'')), POST_predictions dto_1 ''u1'')]
             world_0)"
    by (simp only: three_calls_def run.simps)
  then show ?thesis by (simp only: prediction_store_append_only)
qed

text \<open>
  Claim C9. The statistics are computed from the stored predictions when they are read, for
  every store: the total is the number of rows, the high-risk count the number of rows
  with the band HIGH, and the per-band grouping has exactly one row for each band that
  occurs, with the number of its predictions, and none for a band that does not occur. In
  particular, when exactly three predictions are stored, with the bands LOW, HIGH and HIGH
  in any order, the total is 3, the high-risk count is 2, and the per-band rows are LOW
  with 1 and HIGH with 2, without a row for MEDIUM.
\<close>

theorem statistics_computed_from_rows:
  "total (getStatistics e w) = length (predictions w)
   \<and> highRiskCount (getStatistics e w)
       = length (filter (\<lambda>p. row_riskLevel p = HIGH) (predictions w))
   \<and> distinct (map fst (byRiskLevel (getStatistics e w)))
   \<and> ((band, n) \<in> set (byRiskLevel (getStatistics e w)) \<longleftrightarrow>
         n = length (filter (\<lambda>p. row_riskLevel p = band) (predictions w)) \<and> 0 < n)
   \<and> (mset (map row_riskLevel (predictions w)) = {#LOW, HIGH, HIGH#} \<longrightarrow>
         total (getStatistics e w) = 3
       \<and> highRiskCount (getStatistics e w) = 2
       \<and> set (byRiskLevel (getStatistics e w)) = {(LOW, 1), (HIGH, 2)}
       \<and> length (byRiskLevel (getStatistics e w)) = 2
       \<and> MEDIUM \<notin> fst ` set (byRiskLevel (getStatistics e w)))"
proof -
  have t: "total (getStatistics e w) = length (predictions w)"
    by (simp add: getStatistics_def Let_def)
  have h: "highRiskCount (getStatistics e w)
       = length (filter (\<lambda>p. row_riskLevel p = HIGH) (predictions w))"
    by (simp add: getStatistics_def Let_def)
  have d: "distinct (map fst (byRiskLevel (getStatistics e w)))"
    by (simp add: getStatistics_def Let_def group_count_distinct)
  have g: "(band, n) \<in> set (byRiskLevel (getStatistics e w)) \<longleftrightarrow>
         n = length (filter (\<lambda>p. row_riskLevel p = band) (predictions w)) \<and> 0 < n"
    by (simp add: getStatistics_def Let_def group_count_rows length_filter_band)
  have s: "total (getStatistics e w) = 3
       \<and> highRiskCount (getStatistics e w) = 2
       \<and> set (byRiskLevel (getStatistics e w)) = {(LOW, 1), (HIGH, 2)}
       \<and> length (byRiskLevel (getStatistics e w)) = 2
       \<and> MEDIUM \<notin> fst ` set (byRiskLevel (getStatistics e w))"
    if m: "mset (map row_riskLevel (predictions w)) = {#LOW, HIGH, HIGH#}"
  proof -
    have ne: "LOW \<noteq> HIGH" by simp
    note facts = group_count_of_two_keys [OF m ne]
    have tot: "total (getStatistics e w) = 3"
      using facts(1) by (simp add: getStatistics_def Let_def)
    have high: "highRiskCount (getStatistics e w) = 2"
      using facts(2) by (simp add: getStatistics_def Let_def length_filter_band)
    have rows: "set (byRiskLevel (getStatistics e w)) = {(LOW, 1), (HIGH, 2)}"
      using facts(3) by (simp add: getStatistics_def Let_def)
    have len: "length (byRiskLevel (getStatistics e w)) = 2"
      using facts(4) by (simp add: getStatistics_def Let_def)
    from rows have "MEDIUM \<notin> fst ` set (byRiskLevel (getStatistics e w))"
      by simp
    with tot high rows len show ?thesis by blast
  qed
  from t h d g s show ?thesis by blast
qed

theorem statistics_computed_from_rows_witness:
  "mset (map row_riskLevel (predictions (run three_calls world_0))) = {#LOW, HIGH, HIGH#}
   \<and> total (getStatistics (service (Rejected OtherError)) (run three_calls world_0)) = 3
   \<and> highRiskCount (getStatistics (service (Rejected OtherError)) (run three_calls world_0)) = 2
   \<and> set (byRiskLevel (getStatistics (service (Rejected OtherError)) (run three_calls world_0)))
           = {(LOW, 1), (HIGH, 2)}
   \<and> MEDIUM \<notin> fst ` set (byRiskLevel
           (getStatistics (service (Rejected OtherError)) (run three_calls world_0)))
   \<and> total (getStatistics (service (Rejected OtherError)) world_0) = 0
   \<and> highRiskCount (getStatistics (service (Rejected OtherError)) world_0) = 0"
proof -
  have h: "mset (map row_riskLevel (predictions (run three_calls world_0)))
      = {#LOW, HIGH, HIGH#}"
    by (simp only: three_calls_bands) simp
  have z: "predictions world_0 = []" by (simp add: world_0_def)
  from statistics_computed_from_rows
         [where e = "service (Rejected OtherError)" and w = "run three_calls world_0"
            and band = LOW and n = 1] h
  have a: "total (getStatistics (service (Rejected OtherError)) (run three_calls world_0)) = 3
   \<and> highRiskCount (getStatistics (service (Rejected OtherError)) (run three_calls world_0)) = 2
   \<and> set (byRiskLevel (getStatistics (service (Rejected OtherError)) (run three_calls world_0)))
           = {(LOW, 1), (HIGH, 2)}
   \<and> MEDIUM \<notin> fst ` set (byRiskLevel
           (getStatistics (service (Rejected OtherError)) (run three_calls world_0)))"
    by blast
  from statistics_computed_from_rows
         [where e = "service (Rejected OtherError)" and w = world_0 and band = LOW and n = 1]
  have b: "total (getStatistics (service (Rejected OtherError)) world_0) = 0
   \<and> highRiskCount (getStatistics (service (Rejected OtherError)) world_0) = 0"
    by (simp only: z) simp
  from h a b show ?thesis by blast
qed

text \<open>
  Claim C10, at the input where the code departs from it. The list route called with
  \<open>limit=0\<close> on a store of 101 predictions passes \<open>Math.min(0, 100) = 0\<close> as
  \<open>take\<close>, for which the query has no limit: the page holds all 101 predictions, more
  than the 100 of the claim.
\<close>

theorem limit_zero_returns_every_row:
  "map_sum id (length \<circ> data) (controller_findAll None (Some 0) world_101) = Inr 101
   \<and> map_sum id meta_limit (controller_findAll None (Some 0) world_101) = Inr 0
   \<and> length (predictions world_101) = 101"
  by (simp add: controller_findAll_def findAll_def predictionRepository_findAndCount_def
      Let_def length_order_createdAt_DESC world_101_def)

end
